theory Spec2Isabelle
  imports Main
begin

section \<open>Data model\<close>

text \<open>
  A \<open>Player\<close> object of the town. JavaScript's \<open>Array.prototype.includes\<close> compares
  objects by reference, so the record carries the object's identity \<open>objref\<close> next to the
  fields the space controller reads; two records are the same object iff they are equal.
  The source field \<open>id\<close> is called \<open>player_id\<close> here (\<open>id\<close> is the identity function of HOL).
\<close>

record Player =
  objref :: nat
  player_id :: string
  userName :: string

text \<open>
  The private fields of class \<open>CoveySpaceController\<close>, under the names of their getters.
  The field \<open>_coveyTownController\<close> is a reference to an object whose class is not part of
  the sources at hand: every operation below takes the value of
  \<open>_coveyTownController.players\<close> at the time of the call as its first argument, and
  \<open>claimSpaceCalls\<close> records, in order, the arguments of the calls
  \<open>_coveyTownController.claimSpace(...)\<close> made by this controller.
\<close>

record CoveySpaceController =
  players :: "Player list"
  coveySpaceID :: string
  spaceHostID :: "string option"
  presenterID :: "string option"
  whitelist :: "Player list"
  isPrivate :: bool
  claimSpaceCalls :: "string list"

text \<open>The constructor: no host, no presenter, no players, empty whitelist, not private.\<close>

definition newCoveySpaceController :: "string \<Rightarrow> CoveySpaceController" where
  "newCoveySpaceController spaceID =
     \<lparr> players = [], coveySpaceID = spaceID, spaceHostID = None, presenterID = None,
       whitelist = [], isPrivate = False, claimSpaceCalls = [] \<rparr>"

section \<open>Operations of the space controller\<close>

text \<open>\<open>xs.includes(x)\<close> on an array of objects (\<open>includes\<close> is a keyword of Isabelle).\<close>

definition includes_arr :: "'a list \<Rightarrow> 'a \<Rightarrow> bool" where
  "includes_arr xs x = (x \<in> set xs)"

text \<open>\<open>playerFromID\<close>: the first player of the town with the given id, if any.\<close>

definition playerFromID :: "Player list \<Rightarrow> string \<Rightarrow> Player option" where
  "playerFromID town playerID = find (\<lambda>p. player_id p = playerID) town"

definition isPlayerInSpace :: "CoveySpaceController \<Rightarrow> string \<Rightarrow> bool" where
  "isPlayerInSpace s playerID =
     (find (\<lambda>player. player_id player = playerID) (players s) \<noteq> None)"

definition publicizeSpace :: "CoveySpaceController \<Rightarrow> CoveySpaceController" where
  "publicizeSpace s =
     s\<lparr> isPrivate := False, presenterID := None, spaceHostID := None, whitelist := [] \<rparr>"

definition disconnectAllPlayersExceptP ::
  "Player list \<Rightarrow> string \<Rightarrow> CoveySpaceController \<Rightarrow> CoveySpaceController" where
  "disconnectAllPlayersExceptP town p s =
     (case playerFromID town p of
        None \<Rightarrow> s
      | Some player \<Rightarrow> s\<lparr> players := [player] \<rparr>)"

text \<open>\<open>addPlayer\<close> returns its boolean together with the controller after the call.\<close>

definition addPlayer ::
  "Player list \<Rightarrow> string \<Rightarrow> CoveySpaceController \<Rightarrow> bool \<times> CoveySpaceController" where
  "addPlayer town newPlayerID s =
     (case playerFromID town newPlayerID of
        None \<Rightarrow> (False, s)
      | Some newPlayer \<Rightarrow>
          if includes_arr (players s) newPlayer then (True, s)
          else if isPrivate s = False then
            (True, s\<lparr> players := players s @ [newPlayer] \<rparr>)
          else (case spaceHostID s of
                  None \<Rightarrow> (False, s)
                | Some host \<Rightarrow>
                    if playerFromID town host = None then
                      (let s1 = publicizeSpace s
                       in (True, s1\<lparr> players := players s1 @ [newPlayer] \<rparr>))
                    else if includes_arr (whitelist s) newPlayer \<or> spaceHostID s = Some newPlayerID
                    then (True, s\<lparr> players := players s @ [newPlayer] \<rparr>)
                    else (False, s)))"

definition removePlayer ::
  "Player list \<Rightarrow> string \<Rightarrow> CoveySpaceController \<Rightarrow> CoveySpaceController" where
  "removePlayer town playerID s =
     (case playerFromID town playerID of
        None \<Rightarrow> s
      | Some player \<Rightarrow>
          s\<lparr> players := filter (\<lambda>p. player_id p \<noteq> player_id player) (players s) \<rparr>)"

text \<open>\<open>addPlayerToWhiteList\<close> returns the whitelist, which is a field of the result.\<close>

definition addPlayerToWhiteList ::
  "Player list \<Rightarrow> string \<Rightarrow> CoveySpaceController \<Rightarrow> CoveySpaceController" where
  "addPlayerToWhiteList town newPlayerID s =
     (case playerFromID town newPlayerID of
        None \<Rightarrow> s
      | Some newPlayer \<Rightarrow>
          if includes_arr (whitelist s) newPlayer then s
          else s\<lparr> whitelist := whitelist s @ [newPlayer] \<rparr>)"

definition removePlayerFromWhiteList ::
  "Player list \<Rightarrow> string \<Rightarrow> CoveySpaceController \<Rightarrow> CoveySpaceController" where
  "removePlayerFromWhiteList town playerID s =
     (case playerFromID town playerID of
        None \<Rightarrow> s
      | Some player \<Rightarrow>
          s\<lparr> whitelist := filter (\<lambda>p. player_id p \<noteq> player_id player) (whitelist s) \<rparr>)"

definition updateSpaceHost ::
  "Player list \<Rightarrow> string option \<Rightarrow> CoveySpaceController \<Rightarrow> bool \<times> CoveySpaceController" where
  "updateSpaceHost town newHostID s =
     (case newHostID of
        Some h \<Rightarrow>
          if spaceHostID s = None then
            (let s1 = s\<lparr> spaceHostID := Some h \<rparr>;
                 s2 = disconnectAllPlayersExceptP town h s1;
                 s3 = s2\<lparr> isPrivate := True \<rparr>;
                 s4 = s3\<lparr> claimSpaceCalls := claimSpaceCalls s3 @ [coveySpaceID s3] \<rparr>
             in (True, s4))
          else (False, s)
      | None \<Rightarrow> (True, publicizeSpace s))"

definition updatePresenter ::
  "string option \<Rightarrow> CoveySpaceController \<Rightarrow> CoveySpaceController" where
  "updatePresenter newPresenterID s = s\<lparr> presenterID := newPresenterID \<rparr>"

text \<open>
  The \<open>forEach\<close> loop of \<open>updateWhitelist\<close>: the accumulator is the array
  \<open>idWhitelistToPlayerWhitelist\<close>.
\<close>

fun idsToPlayers :: "Player list \<Rightarrow> string list \<Rightarrow> Player list \<Rightarrow> Player list" where
  "idsToPlayers town [] acc = acc"
| "idsToPlayers town (playerID # rest) acc =
     (case playerFromID town playerID of
        None \<Rightarrow> idsToPlayers town rest acc
      | Some player \<Rightarrow> idsToPlayers town rest (acc @ [player]))"

definition updateWhitelist ::
  "Player list \<Rightarrow> string list \<Rightarrow> CoveySpaceController \<Rightarrow> CoveySpaceController" where
  "updateWhitelist town newWhitelist s = s\<lparr> whitelist := idsToPlayers town newWhitelist [] \<rparr>"

section \<open>Sequences of operations\<close>

text \<open>
  One call on a controller; a run is a list of calls, each with the players the town has
  when the call is made (players join and leave the town between calls).
\<close>

datatype SpaceOp =
    AddPlayer string
  | RemovePlayer string
  | UpdateSpaceHost "string option"
  | UpdatePresenter "string option"
  | UpdateWhitelist "string list"
  | AddPlayerToWhiteList string
  | RemovePlayerFromWhiteList string
  | PublicizeSpace

fun applyOp :: "Player list \<Rightarrow> SpaceOp \<Rightarrow> CoveySpaceController \<Rightarrow> CoveySpaceController" where
  "applyOp town (AddPlayer i) s = snd (addPlayer town i s)"
| "applyOp town (RemovePlayer i) s = removePlayer town i s"
| "applyOp town (UpdateSpaceHost h) s = snd (updateSpaceHost town h s)"
| "applyOp town (UpdatePresenter p) s = updatePresenter p s"
| "applyOp town (UpdateWhitelist ids) s = updateWhitelist town ids s"
| "applyOp town (AddPlayerToWhiteList i) s = addPlayerToWhiteList town i s"
| "applyOp town (RemovePlayerFromWhiteList i) s = removePlayerFromWhiteList town i s"
| "applyOp town PublicizeSpace s = publicizeSpace s"

fun runOps :: "(Player list \<times> SpaceOp) list \<Rightarrow> CoveySpaceController \<Rightarrow> CoveySpaceController" where
  "runOps [] s = s"
| "runOps ((town, operation) # rest) s = runOps rest (applyOp town operation s)"

section \<open>Request handlers\<close>

text \<open>
  The envelope \<open>ResponseEnvelope<T>\<close>: the optional properties \<open>message\<close> and
  \<open>response\<close> are options, \<open>None\<close> where the object literal leaves the property out.
\<close>

record 'a ResponseEnvelope =
  isOK :: bool
  message :: "string option"
  response :: "'a option"

record SpaceClaimRequest =
  claim_coveyTownID :: string
  claim_coveySpaceID :: string
  claim_newHostPlayerID :: string

record SpaceJoinRequest =
  join_coveyTownID :: string
  join_playerID :: string
  join_coveySpaceID :: string

record SpaceJoinResponse =
  currentPlayers :: "Player list"
  currentHostID :: "string option"
  currentPresenterID :: "string option"

text \<open>
  \<open>spaceClaimHandler\<close>. The class \<open>CoveySpacesStore\<close> is not part of the sources at hand:
  the singleton is the argument \<open>store\<close>, a map from space ids to controllers, and
  \<open>getControllerForSpace\<close> is its lookup. The controllers are mutable objects, so the
  handler returns the store after the call next to the envelope. \<open>town\<close> is the list of
  players of the town controller of the space. The interface \<open>SpaceClaimResponse\<close> has
  no members (type \<open>unit\<close>). The handler drops the boolean that \<open>updateSpaceHost\<close>
  returns.
\<close>

definition spaceClaimHandler ::
  "Player list \<Rightarrow> (string \<rightharpoonup> CoveySpaceController) \<Rightarrow> SpaceClaimRequest
   \<Rightarrow> unit ResponseEnvelope \<times> (string \<rightharpoonup> CoveySpaceController)" where
  "spaceClaimHandler town store requestData =
     (case store (claim_coveySpaceID requestData) of
        None \<Rightarrow>
          (\<lparr> isOK = False, message = Some ''Error: No such space'', response = None \<rparr>, store)
      | Some coveySpaceController \<Rightarrow>
          (let controllerAfter =
                 snd (updateSpaceHost town (Some (claim_newHostPlayerID requestData))
                        coveySpaceController)
           in (\<lparr> isOK = True,
                 message = Some (''The host was update to be player with ID ''
                                 @ claim_newHostPlayerID requestData),
                 response = None \<rparr>,
               store(claim_coveySpaceID requestData \<mapsto> controllerAfter))))"

text \<open>
  The two singletons \<open>CoveyTownsStore\<close> and \<open>CoveySpacesStore\<close> that
  \<open>spaceJoinHandler\<close> reads. The class of the town controllers is not part of the sources
  at hand, so their state is the type parameter \<open>'tc\<close>.
\<close>

record 'tc Stores =
  townsStore :: "string \<rightharpoonup> 'tc"
  spacesStore :: "string \<rightharpoonup> CoveySpaceController"

text \<open>
  \<open>spaceJoinHandler\<close>. The method \<open>joinSpace\<close> of the town controller is the first
  argument: applied to the controller found, the player id and the space id, it maps the
  stores before the call to the stores after it (a method may change every object it can
  reach). The handler returns the stores after the call next to the envelope.
\<close>

definition spaceJoinHandler ::
  "('tc \<Rightarrow> string \<Rightarrow> string \<Rightarrow> 'tc Stores \<Rightarrow> 'tc Stores) \<Rightarrow> 'tc Stores \<Rightarrow> SpaceJoinRequest
   \<Rightarrow> SpaceJoinResponse ResponseEnvelope \<times> 'tc Stores" where
  "spaceJoinHandler joinSpace stores requestData =
     (case townsStore stores (join_coveyTownID requestData) of
        None \<Rightarrow>
          (\<lparr> isOK = False, message = Some ''Error: No such town'', response = None \<rparr>, stores)
      | Some coveyTownController \<Rightarrow>
          (let stores1 = joinSpace coveyTownController (join_playerID requestData)
                           (join_coveySpaceID requestData) stores
           in (case spacesStore stores1 (join_coveySpaceID requestData) of
                 None \<Rightarrow>
                   (\<lparr> isOK = False, message = Some ''Error: No such space'', response = None \<rparr>,
                    stores1)
               | Some coveySpaceController \<Rightarrow>
                   (\<lparr> isOK = True, message = None,
                      response = Some \<lparr> currentPlayers = players coveySpaceController,
                                        currentHostID = spaceHostID coveySpaceController,
                                        currentPresenterID = presenterID coveySpaceController \<rparr> \<rparr>,
                    stores1))))"

section \<open>Players and spaces of the examples\<close>

definition alice :: Player where
  "alice = \<lparr> objref = 1, player_id = ''a'', userName = ''Alice'' \<rparr>"

definition bob :: Player where
  "bob = \<lparr> objref = 2, player_id = ''b'', userName = ''Bob'' \<rparr>"

definition carol :: Player where
  "carol = \<lparr> objref = 3, player_id = ''c'', userName = ''Carol'' \<rparr>"

text \<open>
  The space \<open>S1\<close> after Alice has claimed it in a town of Alice and Bob
  (see \<open>aliceSpace_reached\<close>).
\<close>

definition aliceSpace :: CoveySpaceController where
  "aliceSpace =
     \<lparr> players = [alice], coveySpaceID = ''S1'', spaceHostID = Some ''a'', presenterID = None,
       whitelist = [], isPrivate = True, claimSpaceCalls = [''S1''] \<rparr>"

text \<open>A town controller for the examples of the join handler: the log of its \<open>joinSpace\<close> calls.\<close>

definition logJoinSpace ::
  "(string \<times> string) list \<Rightarrow> string \<Rightarrow> string \<Rightarrow> (string \<times> string) list Stores
   \<Rightarrow> (string \<times> string) list Stores" where
  "logJoinSpace tc playerID spaceID stores =
     stores\<lparr> townsStore := (townsStore stores)(''T1'' \<mapsto> tc @ [(playerID, spaceID)]) \<rparr>"

section \<open>Facts about the helpers\<close>

lemma playerFromID_id: "playerFromID town i = Some p \<Longrightarrow> player_id p = i"
  by (auto simp: playerFromID_def find_Some_iff)

lemma playerFromID_mem: "playerFromID town i = Some p \<Longrightarrow> p \<in> set town"
  by (auto simp: playerFromID_def find_Some_iff)

lemma idsToPlayers_ids:
  "map player_id (idsToPlayers town ids acc)
     = map player_id acc @ filter (\<lambda>i. playerFromID town i \<noteq> None) ids"
  by (induction ids arbitrary: acc) (auto split: option.splits dest: playerFromID_id)

lemma idsToPlayers_set: "set (idsToPlayers town ids acc) \<subseteq> set acc \<union> set town"
proof (induction ids arbitrary: acc)
  case Nil
  show ?case by simp
next
  case (Cons playerID rest)
  show ?case
  proof (cases "playerFromID town playerID")
    case None
    then show ?thesis using Cons.IH [of acc] by simp
  next
    case (Some player)
    then have "player \<in> set town" by (rule playerFromID_mem)
    then show ?thesis using Some Cons.IH [of "acc @ [player]"] by auto
  qed
qed

text \<open>
  What \<open>updateWhitelist\<close> stores, read as identifiers: the input identifiers that resolve,
  in the order of the input and once for each occurrence. As sets, the stored identifiers
  are the input identifiers that resolve, and every stored player is a player of the town.
\<close>

lemma updateWhitelist_ids:
  "map player_id (whitelist (updateWhitelist town ids s))
     = filter (\<lambda>i. playerFromID town i \<noteq> None) ids"
  by (simp add: updateWhitelist_def idsToPlayers_ids)

lemma updateWhitelist_id_set:
  "set (map player_id (whitelist (updateWhitelist town ids s)))
     = {i \<in> set ids. playerFromID town i \<noteq> None}"
  unfolding updateWhitelist_ids by simp

lemma updateWhitelist_players_of_town:
  "set (whitelist (updateWhitelist town ids s)) \<subseteq> set town"
  using idsToPlayers_set [of town ids "[]"] by (simp add: updateWhitelist_def)

lemma aliceSpace_reached:
  "runOps [([alice, bob], UpdateSpaceHost (Some ''a''))] (newCoveySpaceController ''S1'')
     = aliceSpace"
  by (simp add: updateSpaceHost_def newCoveySpaceController_def disconnectAllPlayersExceptP_def
      playerFromID_def alice_def bob_def aliceSpace_def Let_def)

section \<open>The privacy flag and the host\<close>

lemma applyOp_private_iff_host:
  "isPrivate s = (spaceHostID s \<noteq> None)
   \<Longrightarrow> isPrivate (applyOp town operation s) = (spaceHostID (applyOp town operation s) \<noteq> None)"
  by (cases operation)
     (auto simp: addPlayer_def includes_arr_def removePlayer_def updateSpaceHost_def
        updatePresenter_def updateWhitelist_def addPlayerToWhiteList_def
        removePlayerFromWhiteList_def publicizeSpace_def disconnectAllPlayersExceptP_def Let_def
        split: option.splits if_splits)

lemma runOps_private_iff_host:
  "isPrivate s = (spaceHostID s \<noteq> None)
   \<Longrightarrow> isPrivate (runOps steps s) = (spaceHostID (runOps steps s) \<noteq> None)"
proof (induction steps arbitrary: s)
  case Nil
  then show ?case by simp
next
  case (Cons step steps)
  obtain town operation where step: "step = (town, operation)" by (cases step)
  from Cons.prems have "isPrivate (applyOp town operation s)
      = (spaceHostID (applyOp town operation s) \<noteq> None)"
    by (rule applyOp_private_iff_host)
  then show ?case unfolding step by (simp add: Cons.IH)
qed

text \<open>
  Claim C1. Starting from a freshly constructed space, after every sequence of calls of
  addPlayer, removePlayer, updateSpaceHost, updatePresenter, updateWhitelist,
  addPlayerToWhiteList, removePlayerFromWhiteList and publicizeSpace, whatever players the
  town has at each call, the stored flag isPrivate is true if and only if the stored
  spaceHostID is not null.
\<close>

theorem private_iff_host_after_every_run:
  "isPrivate (runOps steps (newCoveySpaceController spaceID))
   = (spaceHostID (runOps steps (newCoveySpaceController spaceID)) \<noteq> None)"
  by (rule runOps_private_iff_host) (simp add: newCoveySpaceController_def)

section \<open>Admission to a private space\<close>

text \<open>
  Claim C2. In a private space (isPrivate set and spaceHostID some host; on every space
  reached from a fresh one the two go together), for an identifier that resolves to a player
  who is not yet in the array of players: addPlayer returns true if and only if the host no
  longer resolves in the town, or the identifier is the host's, or the player is in the
  whitelist. When the host no longer resolves, the space is publicized first (isPrivate
  false, spaceHostID and presenterID null, whitelist empty) and the player is appended to
  the players; when the host resolves and the player is the host or whitelisted, the player
  is appended and nothing else changes; in every other case addPlayer returns false and the
  controller, its players included, is unchanged.
\<close>

theorem addPlayer_private:
  assumes "isPrivate s" and "spaceHostID s = Some host"
    and "playerFromID town newPlayerID = Some newPlayer"
    and "\<not> includes_arr (players s) newPlayer"
  shows "fst (addPlayer town newPlayerID s)
           = (playerFromID town host = None \<or> newPlayerID = host
              \<or> includes_arr (whitelist s) newPlayer)
       \<and> addPlayer town newPlayerID s
           = (if playerFromID town host = None
              then (True, s\<lparr> isPrivate := False, presenterID := None, spaceHostID := None,
                              whitelist := [], players := players s @ [newPlayer] \<rparr>)
              else if newPlayerID = host \<or> includes_arr (whitelist s) newPlayer
              then (True, s\<lparr> players := players s @ [newPlayer] \<rparr>)
              else (False, s))"
  using assms by (auto simp: addPlayer_def publicizeSpace_def Let_def)

text \<open>
  Bob, neither host nor whitelisted, is refused by Alice's space while Alice is in the
  town. Once Alice has left the town, the same call admits Bob and publicizes the space:
  the host, the presenter and the whitelist (Carol) are cleared.
\<close>

theorem addPlayer_private_witness:
  "isPrivate aliceSpace \<and> spaceHostID aliceSpace = Some ''a''
   \<and> playerFromID [alice, bob] ''b'' = Some bob
   \<and> \<not> includes_arr (players aliceSpace) bob
   \<and> addPlayer [alice, bob] ''b'' aliceSpace = (False, aliceSpace)
   \<and> playerFromID [bob] ''b'' = Some bob
   \<and> playerFromID [bob] ''a'' = None
   \<and> addPlayer [bob] ''b'' (aliceSpace\<lparr> presenterID := Some ''a'', whitelist := [carol] \<rparr>)
       = (True, \<lparr> players = [alice, bob], coveySpaceID = ''S1'', spaceHostID = None,
                   presenterID = None, whitelist = [], isPrivate = False,
                   claimSpaceCalls = [''S1''] \<rparr>)"
proof -
  let ?t = "aliceSpace\<lparr> presenterID := Some ''a'', whitelist := [carol] \<rparr>"
  have h1: "isPrivate aliceSpace" and h2: "spaceHostID aliceSpace = Some ''a''"
    by (simp_all add: aliceSpace_def)
  have h3: "playerFromID [alice, bob] ''b'' = Some bob"
    by (simp add: playerFromID_def alice_def bob_def)
  have h4: "\<not> includes_arr (players aliceSpace) bob"
    by (simp add: includes_arr_def aliceSpace_def alice_def bob_def)
  have h5: "playerFromID [alice, bob] ''a'' = Some alice"
    by (simp add: playerFromID_def alice_def)
  have h6: "\<not> includes_arr (whitelist aliceSpace) bob"
    by (simp add: includes_arr_def aliceSpace_def)
  from addPlayer_private [OF h1 h2 h3 h4] h5 h6
  have refused: "addPlayer [alice, bob] ''b'' aliceSpace = (False, aliceSpace)" by simp
  have g1: "isPrivate ?t" and g2: "spaceHostID ?t = Some ''a''"
    by (simp_all add: aliceSpace_def)
  have g3: "playerFromID [bob] ''b'' = Some bob"
    by (simp add: playerFromID_def bob_def)
  have g4: "\<not> includes_arr (players ?t) bob"
    by (simp add: includes_arr_def aliceSpace_def alice_def bob_def)
  have g5: "playerFromID [bob] ''a'' = None"
    by (simp add: playerFromID_def bob_def)
  from addPlayer_private [OF g1 g2 g3 g4] g5
  have admitted: "addPlayer [bob] ''b'' ?t
       = (True, \<lparr> players = [alice, bob], coveySpaceID = ''S1'', spaceHostID = None,
                   presenterID = None, whitelist = [], isPrivate = False,
                   claimSpaceCalls = [''S1''] \<rparr>)"
    by (simp add: aliceSpace_def)
  from h1 h2 h3 h4 refused g3 g5 admitted show ?thesis by simp
qed

section \<open>Claiming and releasing the host\<close>

text \<open>
  Claim C3, amended. In a space without host (spaceHostID null), for every identifier,
  updateSpaceHost returns true, stores the identifier as spaceHostID, sets isPrivate and
  tells the town controller that the space is claimed. When the identifier resolves to a
  player of the town, the array of players is replaced by that player alone, so that
  afterwards the only member is the claiming one; when it does not resolve, the players are
  left as they were.
\<close>

theorem claimHost_public:
  assumes "spaceHostID s = None"
  shows "updateSpaceHost town (Some newHostID) s
           = (True, s\<lparr> spaceHostID := Some newHostID,
                       players := (case playerFromID town newHostID of
                                     None \<Rightarrow> players s
                                   | Some player \<Rightarrow> [player]),
                       isPrivate := True,
                       claimSpaceCalls := claimSpaceCalls s @ [coveySpaceID s] \<rparr>)
         \<and> map player_id (players (snd (updateSpaceHost town (Some newHostID) s)))
             = (if playerFromID town newHostID = None then map player_id (players s)
                else [newHostID])"
proof (cases "playerFromID town newHostID")
  case None
  with assms show ?thesis
    by (simp add: updateSpaceHost_def disconnectAllPlayersExceptP_def Let_def)
next
  case (Some player)
  then have "player_id player = newHostID" by (rule playerFromID_id)
  with assms Some show ?thesis
    by (simp add: updateSpaceHost_def disconnectAllPlayersExceptP_def Let_def)
qed

text \<open>Bob is in the public space \<open>S1\<close>; Alice claims it, and Bob is no longer a member.\<close>

theorem claimHost_public_witness:
  "spaceHostID (runOps [([alice, bob], AddPlayer ''b'')] (newCoveySpaceController ''S1'')) = None
   \<and> playerFromID [alice, bob] ''a'' = Some alice
   \<and> players (runOps [([alice, bob], AddPlayer ''b'')] (newCoveySpaceController ''S1'')) = [bob]
   \<and> updateSpaceHost [alice, bob] (Some ''a'')
         (runOps [([alice, bob], AddPlayer ''b'')] (newCoveySpaceController ''S1''))
       = (True, aliceSpace)"
proof -
  let ?s = "runOps [([alice, bob], AddPlayer ''b'')] (newCoveySpaceController ''S1'')"
  have s: "?s = \<lparr> players = [bob], coveySpaceID = ''S1'', spaceHostID = None,
                   presenterID = None, whitelist = [], isPrivate = False,
                   claimSpaceCalls = [] \<rparr>"
    by (simp add: newCoveySpaceController_def addPlayer_def playerFromID_def includes_arr_def
        alice_def bob_def)
  have h1: "spaceHostID ?s = None" unfolding s by simp
  have h2: "playerFromID [alice, bob] ''a'' = Some alice"
    by (simp add: playerFromID_def alice_def)
  from claimHost_public [OF h1, of "[alice, bob]" "''a''"] h2
  have "updateSpaceHost [alice, bob] (Some ''a'') ?s = (True, aliceSpace)"
    unfolding s by (simp add: aliceSpace_def)
  with h1 h2 s show ?thesis by simp
qed

text \<open>
  As first stated, for every identifier, the claim fails: Alice has left the town, in which
  Bob remains, and Bob is in the public space \<open>S1\<close>. A claim under Alice's id succeeds
  and makes the space private, but \<open>disconnectAllPlayersExceptP\<close> finds no player for
  the id and leaves the array of players alone: Bob, who is not the claimant, stays a member.
\<close>

theorem claimHost_unresolved_counterexample:
  "spaceHostID (runOps [([alice, bob], AddPlayer ''b'')] (newCoveySpaceController ''S1'')) = None
   \<and> updateSpaceHost [bob] (Some ''a'')
        (runOps [([alice, bob], AddPlayer ''b'')] (newCoveySpaceController ''S1''))
     = (True, \<lparr> players = [bob], coveySpaceID = ''S1'', spaceHostID = Some ''a'',
               presenterID = None, whitelist = [], isPrivate = True,
               claimSpaceCalls = [''S1''] \<rparr>)
   \<and> player_id bob \<noteq> ''a''"
  by (simp add: newCoveySpaceController_def addPlayer_def playerFromID_def includes_arr_def
      alice_def bob_def updateSpaceHost_def disconnectAllPlayersExceptP_def Let_def)

text \<open>
  Claim C4, amended. updateSpaceHost(null) returns true in every state and leaves the
  controller with isPrivate false, spaceHostID and presenterID null and an empty whitelist,
  every other field as before; afterwards addPlayer returns true exactly for the identifiers
  that resolve, whatever the players of the town then are; a second release changes nothing
  more (idempotence); and the release leaves the controller as it was exactly when isPrivate
  was false, spaceHostID and presenterID were null and the whitelist was empty before.
\<close>

theorem releaseHost_effect:
  "updateSpaceHost town None s
     = (True, s\<lparr> isPrivate := False, presenterID := None, spaceHostID := None, whitelist := [] \<rparr>)
   \<and> fst (addPlayer town' i (snd (updateSpaceHost town None s))) = (playerFromID town' i \<noteq> None)
   \<and> updateSpaceHost town'' None (snd (updateSpaceHost town None s))
       = (True, snd (updateSpaceHost town None s))
   \<and> (snd (updateSpaceHost town None s) = s)
       = (\<not> isPrivate s \<and> spaceHostID s = None \<and> presenterID s = None \<and> whitelist s = [])"
proof -
  have noop: "(s\<lparr> isPrivate := False, presenterID := None, spaceHostID := None, whitelist := [] \<rparr> = s)
       = (\<not> isPrivate s \<and> spaceHostID s = None \<and> presenterID s = None \<and> whitelist s = [])"
    by (cases s) auto
  show ?thesis
    by (simp add: updateSpaceHost_def publicizeSpace_def addPlayer_def noop split: option.splits)
qed

text \<open>
  As first stated, a no-op on every public space, the claim fails: a presenter set on the
  fresh, public space \<open>S1\<close> is cleared by the release.
\<close>

theorem releaseHost_public_counterexample:
  "spaceHostID (runOps [([alice], UpdatePresenter (Some ''a''))] (newCoveySpaceController ''S1''))
     = None
   \<and> isPrivate (runOps [([alice], UpdatePresenter (Some ''a''))] (newCoveySpaceController ''S1''))
     = False
   \<and> presenterID (runOps [([alice], UpdatePresenter (Some ''a''))] (newCoveySpaceController ''S1''))
     = Some ''a''
   \<and> presenterID (snd (updateSpaceHost [alice] None
        (runOps [([alice], UpdatePresenter (Some ''a''))] (newCoveySpaceController ''S1''))))
     = None"
  by (simp add: newCoveySpaceController_def updatePresenter_def updateSpaceHost_def
      publicizeSpace_def)

text \<open>
  Claim C9. In a space that has a host (spaceHostID not null), updateSpaceHost with a
  non-null identifier returns false and leaves the whole controller unchanged: spaceHostID,
  players, whitelist and presenterID among its fields.
\<close>

theorem claimHost_private_rejected:
  "spaceHostID s \<noteq> None \<Longrightarrow> updateSpaceHost town (Some newHostID) s = (False, s)"
  by (auto simp: updateSpaceHost_def)

text \<open>Bob's claim on Alice's space is refused.\<close>

theorem claimHost_private_rejected_witness:
  "spaceHostID aliceSpace \<noteq> None
   \<and> updateSpaceHost [alice, bob] (Some ''b'') aliceSpace = (False, aliceSpace)"
proof -
  have h: "spaceHostID aliceSpace \<noteq> None" by (simp add: aliceSpace_def)
  from claimHost_private_rejected [OF h, of "[alice, bob]" "''b''"] h
  show ?thesis by simp
qed

section \<open>Identifiers that do not resolve\<close>




section \<open>Replacing the whitelist\<close>

text \<open>
  Claim C7, on the input where the code departs from it. updateWhitelist with Alice's id
  twice stores Alice twice: the whitelist read back has two entries for the one identifier,
  where the claim has duplicates collapsed to a single entry. The sibling
  addPlayerToWhiteList, called twice with the same id, stores Alice once.
\<close>

theorem updateWhitelist_keeps_duplicates:
  "whitelist (updateWhitelist [alice, bob] [''a'', ''a''] (newCoveySpaceController ''S1''))
     = [alice, alice]
   \<and> whitelist (addPlayerToWhiteList [alice, bob] ''a''
        (addPlayerToWhiteList [alice, bob] ''a'' (newCoveySpaceController ''S1'')))
     = [alice]"
  by (simp add: updateWhitelist_def playerFromID_def alice_def bob_def
      addPlayerToWhiteList_def includes_arr_def newCoveySpaceController_def)

section \<open>Removing a player\<close>

text \<open>
  Claim C8, amended. removePlayer with an identifier that resolves to a player of the town
  removes every member with that id, and with an identifier that does not resolve it leaves
  the members as they are; it changes nothing when no member has the id; and in every case
  it leaves spaceHostID, presenterID, the whitelist and isPrivate unchanged, also when the
  id is the host's or the presenter's.
\<close>

theorem removePlayer_effect:
  "players (removePlayer town i s)
     = (if playerFromID town i = None then players s
        else filter (\<lambda>p. player_id p \<noteq> i) (players s))
   \<and> spaceHostID (removePlayer town i s) = spaceHostID s
   \<and> presenterID (removePlayer town i s) = presenterID s
   \<and> whitelist (removePlayer town i s) = whitelist s
   \<and> isPrivate (removePlayer town i s) = isPrivate s
   \<and> (i \<notin> set (map player_id (players s)) \<longrightarrow> removePlayer town i s = s)"
proof -
  have absent: "filter (\<lambda>p. player_id p \<noteq> i) (players s) = players s"
    if "i \<notin> set (map player_id (players s))"
    using that by (auto simp: filter_id_conv)
  show ?thesis
  proof (cases "playerFromID town i")
    case None
    then show ?thesis by (simp add: removePlayer_def)
  next
    case (Some player)
    then have "player_id player = i" by (rule playerFromID_id)
    with Some show ?thesis by (simp add: removePlayer_def absent)
  qed
qed

text \<open>
  Bob is not in Alice's space, and removing him changes nothing; removing Alice, the host,
  empties the members and leaves her the host.
\<close>

theorem removePlayer_effect_witness:
  "''b'' \<notin> set (map player_id (players aliceSpace))
   \<and> removePlayer [alice, bob] ''b'' aliceSpace = aliceSpace
   \<and> removePlayer [alice, bob] ''a'' aliceSpace = aliceSpace\<lparr> players := [] \<rparr>"
proof -
  have h: "''b'' \<notin> set (map player_id (players aliceSpace))"
    by (simp add: aliceSpace_def alice_def)
  from removePlayer_effect [of "[alice, bob]" "''b''" aliceSpace] h
  have "removePlayer [alice, bob] ''b'' aliceSpace = aliceSpace" by simp
  moreover have "removePlayer [alice, bob] ''a'' aliceSpace = aliceSpace\<lparr> players := [] \<rparr>"
    by (simp add: removePlayer_def playerFromID_def aliceSpace_def alice_def)
  ultimately show ?thesis using h by simp
qed

text \<open>
  As first stated, for every identifier, the claim fails: Alice joined the public space
  \<open>S1\<close> and then left the town. removePlayer with her id finds no player for it and
  leaves her among the members.
\<close>

theorem removePlayer_unresolved_counterexample:
  "players (runOps [([alice], AddPlayer ''a'')] (newCoveySpaceController ''S1'')) = [alice]
   \<and> player_id alice = ''a''
   \<and> players (removePlayer [] ''a''
        (runOps [([alice], AddPlayer ''a'')] (newCoveySpaceController ''S1''))) = [alice]"
  by (simp add: newCoveySpaceController_def addPlayer_def playerFromID_def includes_arr_def
      alice_def removePlayer_def)

section \<open>The handlers\<close>

text \<open>
  An envelope with isOK false, from either handler, carries a message and no response.
\<close>

lemma spaceClaimHandler_failure_envelope:
  "\<not> isOK (fst (spaceClaimHandler town store requestData))
   \<Longrightarrow> message (fst (spaceClaimHandler town store requestData)) \<noteq> None
       \<and> response (fst (spaceClaimHandler town store requestData)) = None"
  by (simp add: spaceClaimHandler_def Let_def split: option.splits)

lemma spaceJoinHandler_failure_envelope:
  "\<not> isOK (fst (spaceJoinHandler joinSpace stores requestData))
   \<Longrightarrow> message (fst (spaceJoinHandler joinSpace stores requestData)) \<noteq> None
       \<and> response (fst (spaceJoinHandler joinSpace stores requestData)) = None"
  by (auto simp: spaceJoinHandler_def Let_def split: option.splits)

text \<open>The claim handler answers isOK false only when the space is not in the store.\<close>

lemma spaceClaimHandler_isOK:
  "isOK (fst (spaceClaimHandler town store requestData))
     = (store (claim_coveySpaceID requestData) \<noteq> None)"
  by (simp add: spaceClaimHandler_def Let_def split: option.splits)

text \<open>
  Claim C6, on the input where the code departs from it. Bob asks for Alice's space
  \<open>S1\<close>, which exists: updateSpaceHost returns false and changes nothing, and the
  handler, which drops that boolean, answers isOK true with the message that the host was
  updated to Bob, while the store still holds the space with Alice as host.
\<close>

theorem spaceClaimHandler_reports_success_on_rejected_claim:
  "updateSpaceHost [alice, bob] (Some ''b'') aliceSpace = (False, aliceSpace)
   \<and> fst (spaceClaimHandler [alice, bob] [''S1'' \<mapsto> aliceSpace]
            \<lparr> claim_coveyTownID = ''T1'', claim_coveySpaceID = ''S1'',
              claim_newHostPlayerID = ''b'' \<rparr>)
       = \<lparr> isOK = True, message = Some ''The host was update to be player with ID b'',
           response = None \<rparr>
   \<and> snd (spaceClaimHandler [alice, bob] [''S1'' \<mapsto> aliceSpace]
            \<lparr> claim_coveyTownID = ''T1'', claim_coveySpaceID = ''S1'',
              claim_newHostPlayerID = ''b'' \<rparr>) ''S1''
       = Some aliceSpace"
  by (simp add: spaceClaimHandler_def updateSpaceHost_def aliceSpace_def Let_def)

text \<open>
  Claim C10. For a join request whose town is in the towns store and whose space is not in
  the spaces store (and is not put there by joinSpace), the handler calls joinSpace of the
  town controller before it looks the space up: it answers isOK false with the message
  'Error: No such space' and no response, and the stores it leaves behind are those after
  the call of joinSpace, not those it was given.
\<close>

theorem spaceJoinHandler_joins_before_space_check:
  assumes "townsStore stores (join_coveyTownID requestData) = Some coveyTownController"
    and "spacesStore stores (join_coveySpaceID requestData) = None"
    and "spacesStore (joinSpace coveyTownController (join_playerID requestData)
            (join_coveySpaceID requestData) stores) (join_coveySpaceID requestData)
         = spacesStore stores (join_coveySpaceID requestData)"
  shows "spaceJoinHandler joinSpace stores requestData
           = (\<lparr> isOK = False, message = Some ''Error: No such space'', response = None \<rparr>,
              joinSpace coveyTownController (join_playerID requestData)
                (join_coveySpaceID requestData) stores)"
  using assms by (simp add: spaceJoinHandler_def Let_def)

text \<open>
  Town \<open>T1\<close> exists and space \<open>S9\<close> does not: the handler fails, and the town
  controller has recorded the join of player \<open>a\<close>.
\<close>

theorem spaceJoinHandler_joins_before_space_check_witness:
  "townsStore \<lparr> townsStore = [''T1'' \<mapsto> []], spacesStore = Map.empty \<rparr> ''T1'' = Some []
   \<and> spacesStore \<lparr> townsStore = [''T1'' \<mapsto> []], spacesStore = Map.empty \<rparr> ''S9'' = None
   \<and> spaceJoinHandler logJoinSpace
       \<lparr> townsStore = [''T1'' \<mapsto> []], spacesStore = Map.empty \<rparr>
       \<lparr> join_coveyTownID = ''T1'', join_playerID = ''a'', join_coveySpaceID = ''S9'' \<rparr>
     = (\<lparr> isOK = False, message = Some ''Error: No such space'', response = None \<rparr>,
        \<lparr> townsStore = [''T1'' \<mapsto> [(''a'', ''S9'')]], spacesStore = Map.empty \<rparr>)"
  using spaceJoinHandler_joins_before_space_check
          [of "\<lparr> townsStore = [''T1'' \<mapsto> []], spacesStore = Map.empty \<rparr>"
              "\<lparr> join_coveyTownID = ''T1'', join_playerID = ''a'', join_coveySpaceID = ''S9'' \<rparr>"
              "[]" logJoinSpace]
  by (simp add: logJoinSpace_def)

end
